theory Spec2Isabelle
  imports Complex_Main
begin

section \<open>JavaScript numbers\<close>

text \<open>
  The script computes with JavaScript numbers. They are modelled as the exact real value
  of a finite number together with the three special values of IEEE-754 that the script
  can produce: the two infinities and NaN. Arithmetic on finite values is exact (the
  rounding of each operation to a double, and overflow to an infinity, are not
  modelled); arithmetic on the special values follows ECMAScript.

  There is one zero. The sign of a zero is observable only through a division by it or
  through \<open>Math.pow\<close> with a zero base. Every divisor and every base of the script that
  can be zero is a sum or a difference (\<open>Math.pow(..) - 1\<close> and \<open>1 + monthlyInterest\<close>),
  which IEEE-754 rounds to \<open>+0\<close>, never to \<open>-0\<close>; so dividing by the zero of the model is
  dividing by \<open>+0\<close>.
\<close>

datatype jsnum = Fin real | PInf | NInf | NaN

text \<open>
  \<open>parseInt\<close> yields an integer or NaN. (Digits beyond the range of a double, which it
  turns into an infinity, are left out, and so is the sign of a zero.)
\<close>

datatype js_integer = IntVal int | IntNaN

fun to_num :: "js_integer \<Rightarrow> jsnum" where
  "to_num (IntVal n) = Fin (of_int n)"
| "to_num IntNaN = NaN"

fun isFinite :: "jsnum \<Rightarrow> bool" where
  "isFinite (Fin x) = True"
| "isFinite PInf = False"
| "isFinite NInf = False"
| "isFinite NaN = False"

fun js_add :: "jsnum \<Rightarrow> jsnum \<Rightarrow> jsnum" where
  "js_add (Fin x) (Fin y) = Fin (x + y)"
| "js_add (Fin x) PInf = PInf"
| "js_add (Fin x) NInf = NInf"
| "js_add PInf (Fin y) = PInf"
| "js_add PInf PInf = PInf"
| "js_add PInf NInf = NaN"
| "js_add NInf (Fin y) = NInf"
| "js_add NInf PInf = NaN"
| "js_add NInf NInf = NInf"
| "js_add NaN b = NaN"
| "js_add a NaN = NaN"

fun js_sub :: "jsnum \<Rightarrow> jsnum \<Rightarrow> jsnum" where
  "js_sub (Fin x) (Fin y) = Fin (x - y)"
| "js_sub (Fin x) PInf = NInf"
| "js_sub (Fin x) NInf = PInf"
| "js_sub PInf (Fin y) = PInf"
| "js_sub PInf PInf = NaN"
| "js_sub PInf NInf = PInf"
| "js_sub NInf (Fin y) = NInf"
| "js_sub NInf PInf = NInf"
| "js_sub NInf NInf = NaN"
| "js_sub NaN b = NaN"
| "js_sub a NaN = NaN"

text \<open>The infinity whose sign is that of a non-zero real; NaN for zero.\<close>

definition signed_inf :: "real \<Rightarrow> jsnum" where
  "signed_inf s = (if s = 0 then NaN else if 0 < s then PInf else NInf)"

fun js_mul :: "jsnum \<Rightarrow> jsnum \<Rightarrow> jsnum" where
  "js_mul (Fin x) (Fin y) = Fin (x * y)"
| "js_mul (Fin x) PInf = signed_inf x"
| "js_mul (Fin x) NInf = signed_inf (- x)"
| "js_mul PInf (Fin y) = signed_inf y"
| "js_mul PInf PInf = PInf"
| "js_mul PInf NInf = NInf"
| "js_mul NInf (Fin y) = signed_inf (- y)"
| "js_mul NInf PInf = NInf"
| "js_mul NInf NInf = PInf"
| "js_mul NaN b = NaN"
| "js_mul a NaN = NaN"

fun js_div :: "jsnum \<Rightarrow> jsnum \<Rightarrow> jsnum" where
  "js_div (Fin x) (Fin y) = (if y = 0 then signed_inf x else Fin (x / y))"
| "js_div (Fin x) PInf = Fin 0"
| "js_div (Fin x) NInf = Fin 0"
| "js_div PInf (Fin y) = (if 0 \<le> y then PInf else NInf)"
| "js_div PInf PInf = NaN"
| "js_div PInf NInf = NaN"
| "js_div NInf (Fin y) = (if 0 \<le> y then NInf else PInf)"
| "js_div NInf PInf = NaN"
| "js_div NInf NInf = NaN"
| "js_div NaN b = NaN"
| "js_div a NaN = NaN"


text \<open>
  \<open>Math.pow(base, exponent)\<close> for an exponent that is an integer or NaN, in the order of
  the cases of ECMAScript's \<open>Number::exponentiate\<close>. A zero base is \<open>+0\<close> (see above); a
  zero result stands for either zero.
\<close>

fun Math_pow :: "jsnum \<Rightarrow> js_integer \<Rightarrow> jsnum" where
  "Math_pow b IntNaN = NaN"
| "Math_pow b (IntVal n) =
     (if n = 0 then Fin 1
      else case b of
        NaN \<Rightarrow> NaN
      | PInf \<Rightarrow> (if 0 < n then PInf else Fin 0)
      | NInf \<Rightarrow> (if 0 < n then (if odd n then NInf else PInf) else Fin 0)
      | Fin x \<Rightarrow>
          (if 0 < n then Fin (x ^ nat n)
           else if x = 0 then PInf
           else Fin (1 / x ^ nat (- n))))"

text \<open>The loop test \<open>i < loanDuration\<close> for the counter \<open>i\<close>.\<close>

fun counter_lt :: "nat \<Rightarrow> js_integer \<Rightarrow> bool" where
  "counter_lt i (IntVal n) = (int i < n)"
| "counter_lt i IntNaN = False"

section \<open>Number.prototype.toFixed(2)\<close>

text \<open>
  \<open>x.toFixed(2)\<close> is a string. For \<open>|x| < 10^21\<close> it is the decimal numeral of \<open>x\<close>
  rounded to hundredths, a tie going to the larger magnitude. From \<open>10^21\<close> on it is
  \<open>ToString(x)\<close>, an exponent notation whose digits depend on the binary representation
  of the double; the model keeps the number there instead of a string.
\<close>

datatype fixed_text = Text string | Exponential real

fun decimal :: "nat \<Rightarrow> string" where
  "decimal n =
     (if n < 10 then [''0123456789'' ! n]
      else decimal (n div 10) @ [''0123456789'' ! (n mod 10)])"

declare decimal.simps [simp del]

definition pad_left :: "nat \<Rightarrow> string \<Rightarrow> string" where
  "pad_left k s = replicate (k - length s) CHR ''0'' @ s"

text \<open>The digits of \<open>n\<close> hundredths with the decimal point before the last two.\<close>

definition hundredths :: "nat \<Rightarrow> string" where
  "hundredths n =
     (let m = pad_left 3 (decimal n); k = length m
      in take (k - 2) m @ ''.'' @ drop (k - 2) m)"

fun toFixed2 :: "jsnum \<Rightarrow> fixed_text" where
  "toFixed2 NaN = Text ''NaN''"
| "toFixed2 PInf = Text ''Infinity''"
| "toFixed2 NInf = Text ''-Infinity''"
| "toFixed2 (Fin x) =
     (if 10 ^ 21 \<le> \<bar>x\<bar> then Exponential x
      else Text ((if x < 0 then ''-'' else []) @ hundredths (nat \<lfloor>\<bar>x\<bar> * 100 + 1 / 2\<rfloor>)))"

section \<open>Date\<close>

text \<open>
  A Date holds a time value: milliseconds since 1970-01-01T00:00:00Z, or NaN (an invalid
  date), which is \<open>None\<close> here. The local time zone of the host enters through
  \<open>LocalTZA(t, isUTC)\<close>, which ECMAScript leaves to the implementation: it is a parameter
  \<open>tza\<close> of everything that reads or writes local time.
\<close>

type_synonym jsdate = "int option"
type_synonym local_tza = "int \<Rightarrow> bool \<Rightarrow> int"

datatype js_error = RangeError

definition msPerDay :: int where
  "msPerDay = 86400000"

definition Day :: "int \<Rightarrow> int" where
  "Day t = t div msPerDay"

definition TimeWithinDay :: "int \<Rightarrow> int" where
  "TimeWithinDay t = t mod msPerDay"

text \<open>
  The day number of a date of the proleptic Gregorian calendar, and back; months count
  from 0 as in JavaScript, the day of the month from 1.
\<close>

definition days_from_civil :: "int \<Rightarrow> int \<Rightarrow> int \<Rightarrow> int" where
  "days_from_civil y m d =
     (let y' = (if m < 2 then y - 1 else y);
          era = y' div 400;
          yoe = y' - era * 400;
          mp = (if m < 2 then m + 10 else m - 2);
          doy = (153 * mp + 2) div 5 + d - 1;
          doe = yoe * 365 + yoe div 4 - yoe div 100 + doy
      in era * 146097 + doe - 719468)"

definition civil_from_days :: "int \<Rightarrow> int \<times> int \<times> int" where
  "civil_from_days z =
     (let z' = z + 719468;
          era = z' div 146097;
          doe = z' - era * 146097;
          yoe = (doe - doe div 1460 + doe div 36524 - doe div 146096) div 365;
          doy = doe - (365 * yoe + yoe div 4 - yoe div 100);
          mp = (5 * doy + 2) div 153;
          d = doy - (153 * mp + 2) div 5 + 1;
          m = (if mp < 10 then mp + 2 else mp - 10);
          y = yoe + era * 400
      in (if m < 2 then y + 1 else y, m, d))"

definition YearFromTime :: "int \<Rightarrow> int" where
  "YearFromTime t = fst (civil_from_days (Day t))"

definition MonthFromTime :: "int \<Rightarrow> int" where
  "MonthFromTime t = fst (snd (civil_from_days (Day t)))"

definition DateFromTime :: "int \<Rightarrow> int" where
  "DateFromTime t = snd (snd (civil_from_days (Day t)))"

text \<open>
  \<open>MakeDay\<close> takes any month number and any day number: a month beyond 11 carries into
  the year, and a day beyond the end of the month runs on into the next month.
\<close>

definition MakeDay :: "int \<Rightarrow> int \<Rightarrow> int \<Rightarrow> int" where
  "MakeDay year month dt = days_from_civil (year + month div 12) (month mod 12) 1 + dt - 1"

definition MakeDate :: "int \<Rightarrow> int \<Rightarrow> int" where
  "MakeDate day time = day * msPerDay + time"

definition TimeClip :: "int \<Rightarrow> jsdate" where
  "TimeClip t = (if 8640000000000000 < \<bar>t\<bar> then None else Some t)"

definition LocalTime :: "local_tza \<Rightarrow> int \<Rightarrow> int" where
  "LocalTime tza t = t + tza t True"

definition UTC :: "local_tza \<Rightarrow> int \<Rightarrow> int" where
  "UTC tza t = t - tza t False"

text \<open>
  \<open>new Date(startDate)\<close>. The script passes the string of the date field; the model
  holds it as the time value that the constructor reads from it (\<open>None\<close> when the string
  is not a date). The constructor makes a new object with that time value each time it
  is called, and \<open>setMonth\<close> on the new object leaves \<open>startDate\<close> as it was.
\<close>

definition Date_new :: "jsdate \<Rightarrow> jsdate" where
  "Date_new v = v"

text \<open>\<open>date.getMonth()\<close>: the month of the local time, NaN for an invalid date.\<close>

definition Date_getMonth :: "local_tza \<Rightarrow> jsdate \<Rightarrow> int option" where
  "Date_getMonth tza d = map_option (\<lambda>tv. MonthFromTime (LocalTime tza tv)) d"

text \<open>
  \<open>date.setMonth(month)\<close>: the new time value of the date. The day of the month and the
  time within the day are kept, in local time; the result is clipped to the range of
  time values.
\<close>

definition Date_setMonth :: "local_tza \<Rightarrow> jsdate \<Rightarrow> int option \<Rightarrow> jsdate" where
  "Date_setMonth tza d month =
     (case d of
        None \<Rightarrow> None
      | Some tv \<Rightarrow>
          (case month of
             None \<Rightarrow> None
           | Some m \<Rightarrow>
               (let t = LocalTime tza tv;
                    dt = DateFromTime t;
                    newDate = MakeDate (MakeDay (YearFromTime t) m dt) (TimeWithinDay t)
                in TimeClip (UTC tza newDate))))"

definition year_text :: "int \<Rightarrow> string" where
  "year_text y =
     (if 0 \<le> y \<and> y \<le> 9999 then pad_left 4 (decimal (nat y))
      else (if y < 0 then ''-'' else ''+'') @ pad_left 6 (decimal (nat \<bar>y\<bar>)))"

text \<open>\<open>date.toISOString()\<close>: the UTC fields of the time value; a RangeError for NaN.\<close>

definition Date_toISOString :: "jsdate \<Rightarrow> js_error + string" where
  "Date_toISOString d =
     (case d of
        None \<Rightarrow> Inl RangeError
      | Some tv \<Rightarrow>
          (let ms = TimeWithinDay tv
           in Inr (year_text (YearFromTime tv) @ ''-''
                   @ pad_left 2 (decimal (nat (MonthFromTime tv + 1))) @ ''-''
                   @ pad_left 2 (decimal (nat (DateFromTime tv))) @ ''T''
                   @ pad_left 2 (decimal (nat (ms div 3600000))) @ '':''
                   @ pad_left 2 (decimal (nat (ms div 60000 mod 60))) @ '':''
                   @ pad_left 2 (decimal (nat (ms div 1000 mod 60))) @ ''.''
                   @ pad_left 3 (decimal (nat (ms mod 1000))) @ ''Z'')))"

text \<open>\<open>s.split('T')[0]\<close>: the part of \<open>s\<close> before the first \<open>T\<close>.\<close>

definition before_T :: "string \<Rightarrow> string" where
  "before_T s = takeWhile (\<lambda>c. c \<noteq> CHR ''T'') s"

section \<open>The repayment schedule\<close>

record schedule_entry =
  date :: string
  principalAmount :: fixed_text
  interest :: fixed_text
  balance :: fixed_text

text \<open>
  The amounts of one period, from the running balance \<open>bal\<close> (lines 41 to 43 of the
  script): the interest, the principal, and the balance after the period.
\<close>

definition period_step :: "jsnum \<Rightarrow> jsnum \<Rightarrow> jsnum \<Rightarrow> jsnum \<times> jsnum \<times> jsnum" where
  "period_step monthlyEMI interestRate bal =
     (let interest_i = js_mul bal (js_div interestRate (Fin 12));
          principal_i = js_sub monthlyEMI interest_i;
          bal' = js_sub bal principal_i
      in (interest_i, principal_i, bal'))"

text \<open>
  The \<open>for\<close> loop of \<open>generateRepaymentScheduleArray\<close>, from the counter \<open>i\<close>, the running
  balance \<open>bal\<close> and the rows pushed so far. \<open>toISOString\<close> throws on an invalid date,
  which ends the loop and the function with the error. The loop returns its final
  state: the running balance and the rows.
\<close>

function schedule_loop ::
  "local_tza \<Rightarrow> jsnum \<Rightarrow> js_integer \<Rightarrow> jsdate \<Rightarrow> jsnum \<Rightarrow> nat \<Rightarrow> jsnum \<Rightarrow> schedule_entry list
     \<Rightarrow> js_error + jsnum \<times> schedule_entry list" where
  "schedule_loop tza monthlyEMI loanDuration startDate interestRate i bal scheduleArray =
     (if counter_lt i loanDuration then
        (let d0 = Date_new startDate;
             d = Date_setMonth tza d0 (map_option (\<lambda>m. m + int i) (Date_getMonth tza d0))
         in case period_step monthlyEMI interestRate bal of
              (interest_i, principal_i, bal') \<Rightarrow>
                (case Date_toISOString d of
                   Inl e \<Rightarrow> Inl e
                 | Inr s \<Rightarrow>
                     schedule_loop tza monthlyEMI loanDuration startDate interestRate (Suc i) bal'
                       (scheduleArray @
                         [\<lparr>date = before_T s,
                           principalAmount = toFixed2 principal_i,
                           interest = toFixed2 interest_i,
                           balance = toFixed2 bal'\<rparr>])))
      else Inr (bal, scheduleArray))"
  by pat_completeness auto
termination
  by (relation "measure (\<lambda>(tza, monthlyEMI, loanDuration, startDate, interestRate, i, bal, acc).
        case loanDuration of IntVal n \<Rightarrow> nat (n - int i) | IntNaN \<Rightarrow> 0)")
     (auto split: js_integer.splits)

declare schedule_loop.simps [simp del]

definition generateRepaymentScheduleArray ::
  "local_tza \<Rightarrow> jsnum \<Rightarrow> jsnum \<Rightarrow> js_integer \<Rightarrow> jsdate \<Rightarrow> jsnum \<Rightarrow> js_error + schedule_entry list" where
  "generateRepaymentScheduleArray tza loanAmount monthlyEMI loanDuration startDate interestRate =
     map_sum id snd (schedule_loop tza monthlyEMI loanDuration startDate interestRate 0 loanAmount [])"

section \<open>The loan\<close>

record loan_details =
  monthlyEMI :: jsnum
  totalInterest :: jsnum
  totalAmount :: jsnum
  repaymentSchedule :: "schedule_entry list"

text \<open>The payment of lines 20 to 23 of the script.\<close>

definition monthly_payment :: "jsnum \<Rightarrow> jsnum \<Rightarrow> js_integer \<Rightarrow> jsnum" where
  "monthly_payment loanAmount interestRate loanDuration =
     (let monthlyInterest = js_div interestRate (Fin 12);
          numerator = js_mul (js_mul loanAmount monthlyInterest)
                        (Math_pow (js_add (Fin 1) monthlyInterest) loanDuration);
          denominator = js_sub (Math_pow (js_add (Fin 1) monthlyInterest) loanDuration) (Fin 1)
      in js_div numerator denominator)"

definition calculateLoanDetails ::
  "local_tza \<Rightarrow> jsnum \<Rightarrow> jsnum \<Rightarrow> js_integer \<Rightarrow> jsdate \<Rightarrow> js_error + loan_details" where
  "calculateLoanDetails tza loanAmount interestRate loanDuration startDate =
     (let emi = monthly_payment loanAmount interestRate loanDuration
      in case generateRepaymentScheduleArray tza loanAmount emi loanDuration startDate interestRate of
           Inl e \<Rightarrow> Inl e
         | Inr schedule \<Rightarrow>
             (let interest_total = js_sub (js_mul emi (to_num loanDuration)) loanAmount;
                  amount_total = js_add interest_total loanAmount
              in Inr \<lparr>monthlyEMI = emi,
                      totalInterest = interest_total,
                      totalAmount = amount_total,
                      repaymentSchedule = schedule\<rparr>))"

text \<open>
  \<open>calculateLoan\<close> from the values it parses out of the page: \<open>parseFloat\<close> of the amount
  and of the rate fields, \<open>parseInt\<close> of the duration field, and the date field. Its
  result is what \<open>calculateLoanDetails\<close> returns, which the script goes on to write
  into the page.
\<close>

definition calculateLoan ::
  "local_tza \<Rightarrow> jsnum \<Rightarrow> jsnum \<Rightarrow> js_integer \<Rightarrow> jsdate \<Rightarrow> js_error + loan_details" where
  "calculateLoan tza amountField rateField durationField startDate =
     (let loanAmount = amountField;
          interestRate = js_div rateField (Fin 100);
          loanDuration = durationField
      in calculateLoanDetails tza loanAmount interestRate loanDuration startDate)"

section \<open>What the loop computes\<close>

text \<open>The number of times the loop body runs.\<close>

fun loop_count :: "js_integer \<Rightarrow> nat" where
  "loop_count (IntVal n) = nat n"
| "loop_count IntNaN = 0"

text \<open>
  The date of row \<open>i\<close> as lines 38, 39 and 46 of the script compute it: from a new Date
  on \<open>startDate\<close> and from \<open>i\<close>.
\<close>

definition row_date :: "local_tza \<Rightarrow> jsdate \<Rightarrow> nat \<Rightarrow> js_error + string" where
  "row_date tza startDate i =
     map_sum id before_T
       (Date_toISOString
          (Date_setMonth tza (Date_new startDate)
             (map_option (\<lambda>m. m + int i) (Date_getMonth tza (Date_new startDate)))))"

definition date_valid :: "local_tza \<Rightarrow> jsdate \<Rightarrow> nat \<Rightarrow> bool" where
  "date_valid tza startDate i = (case row_date tza startDate i of Inl e \<Rightarrow> False | Inr s \<Rightarrow> True)"

text \<open>The dates of the rows \<open>0\<close> to \<open>n - 1\<close> are all valid: no \<open>toISOString\<close> throws.\<close>

definition dates_valid :: "local_tza \<Rightarrow> jsdate \<Rightarrow> nat \<Rightarrow> bool" where
  "dates_valid tza startDate n = list_all (date_valid tza startDate) [0..<n]"

definition date_text :: "local_tza \<Rightarrow> jsdate \<Rightarrow> nat \<Rightarrow> string" where
  "date_text tza startDate i = (case row_date tza startDate i of Inl e \<Rightarrow> [] | Inr s \<Rightarrow> s)"

text \<open>The running balance of the loop after \<open>k\<close> periods: \<open>period_step\<close> iterated.\<close>

primrec running_balance :: "jsnum \<Rightarrow> jsnum \<Rightarrow> jsnum \<Rightarrow> nat \<Rightarrow> jsnum" where
  "running_balance emi interestRate loanAmount 0 = loanAmount"
| "running_balance emi interestRate loanAmount (Suc k) =
     snd (snd (period_step emi interestRate (running_balance emi interestRate loanAmount k)))"


section \<open>The schedule in the words of the specification\<close>

text \<open>
  The specification builds the schedule from a running balance that starts at the
  principal: in each period the interest portion is the running balance times the
  monthly rate, the principal portion is the monthly payment less the interest portion,
  and the running balance goes down by the principal portion. The row of a period shows
  the three amounts rounded to two decimal places; the running balance itself is not
  rounded.
\<close>

primrec spec_balance :: "jsnum \<Rightarrow> jsnum \<Rightarrow> jsnum \<Rightarrow> nat \<Rightarrow> jsnum" where
  "spec_balance amount monthlyPayment monthlyRate 0 = amount"
| "spec_balance amount monthlyPayment monthlyRate (Suc k) =
     js_sub (spec_balance amount monthlyPayment monthlyRate k)
       (js_sub monthlyPayment (js_mul (spec_balance amount monthlyPayment monthlyRate k) monthlyRate))"

definition spec_interest :: "jsnum \<Rightarrow> jsnum \<Rightarrow> jsnum \<Rightarrow> nat \<Rightarrow> jsnum" where
  "spec_interest amount monthlyPayment monthlyRate k =
     js_mul (spec_balance amount monthlyPayment monthlyRate k) monthlyRate"

definition spec_principal :: "jsnum \<Rightarrow> jsnum \<Rightarrow> jsnum \<Rightarrow> nat \<Rightarrow> jsnum" where
  "spec_principal amount monthlyPayment monthlyRate k =
     js_sub monthlyPayment (spec_interest amount monthlyPayment monthlyRate k)"

definition spec_row ::
  "local_tza \<Rightarrow> jsdate \<Rightarrow> jsnum \<Rightarrow> jsnum \<Rightarrow> jsnum \<Rightarrow> nat \<Rightarrow> schedule_entry" where
  "spec_row tza startDate amount monthlyPayment monthlyRate k =
     \<lparr>date = date_text tza startDate k,
      principalAmount = toFixed2 (spec_principal amount monthlyPayment monthlyRate k),
      interest = toFixed2 (spec_interest amount monthlyPayment monthlyRate k),
      balance = toFixed2 (spec_balance amount monthlyPayment monthlyRate (Suc k))\<rparr>"

section \<open>A host for the examples\<close>

text \<open>A host whose local time is UTC.\<close>

definition utc :: local_tza where
  "utc t isUTC = 0"

section \<open>Rounding and the calendar\<close>

text \<open>
  Below \<open>10^21\<close> the text of \<open>toFixed(2)\<close> is the sign and the digits of a whole number
  of hundredths that is nearest to the magnitude of the number.
\<close>

lemma toFixed2_nearest:
  assumes "\<bar>x\<bar> < 10 ^ 21"
  obtains c where "toFixed2 (Fin x) = Text ((if x < 0 then ''-'' else []) @ hundredths c)"
    and "\<bar>\<bar>x\<bar> * 100 - real c\<bar> \<le> 1 / 2"
proof
  let ?c = "nat \<lfloor>\<bar>x\<bar> * 100 + 1 / 2\<rfloor>"
  show "toFixed2 (Fin x) = Text ((if x < 0 then ''-'' else []) @ hundredths ?c)"
    using assms by simp
  have "0 \<le> \<lfloor>\<bar>x\<bar> * 100 + 1 / 2\<rfloor>" by simp
  then have "real ?c = of_int \<lfloor>\<bar>x\<bar> * 100 + 1 / 2\<rfloor>" by simp
  then show "\<bar>\<bar>x\<bar> * 100 - real ?c\<bar> \<le> 1 / 2" by linarith
qed

text \<open>
  Day 0 is 1970-01-01; 2024 is a leap year and 1900 is not; the 31st day of month 13 of
  2024 is the 3rd of March 2025.
\<close>

lemma calendar_examples:
  "civil_from_days 0 = (1970, 0, 1)"
  "civil_from_days 19782 = (2024, 1, 29)"
  "civil_from_days (- 25508) = (1900, 2, 1)"
  "days_from_civil 2000 1 29 = 11016"
  "MakeDay 2024 13 31 = days_from_civil 2025 2 3"
  by code_simp+

text \<open>
  The date of a row from a valid start: the day of the month and the time of day of
  the start, in the month of the start moved on by \<open>i\<close>, all in local time.
\<close>

lemma row_date_formula:
  "row_date tza (Some tv) i =
     map_sum id before_T
       (Date_toISOString
          (TimeClip (UTC tza
             (MakeDate
                (MakeDay (YearFromTime (LocalTime tza tv))
                   (MonthFromTime (LocalTime tza tv) + int i)
                   (DateFromTime (LocalTime tza tv)))
                (TimeWithinDay (LocalTime tza tv))))))"
  by (simp add: row_date_def Date_new_def Date_getMonth_def Date_setMonth_def Let_def)

lemma row_date_invalid: "row_date tza None i = Inl RangeError"
  by (simp add: row_date_def Date_new_def Date_getMonth_def Date_setMonth_def
        Date_toISOString_def)

section \<open>The loop\<close>

lemma counter_lt_loop_count: "counter_lt i D \<longleftrightarrow> i < loop_count D"
  by (cases D) auto

lemma spec_balance_shift:
  "spec_balance (js_sub b (js_sub M (js_mul b r))) M r k = spec_balance b M r (Suc k)"
  by (induction k) simp_all

lemma js_error_is_RangeError: "(e :: js_error) = RangeError"
  by (cases e) simp

text \<open>
  The loop from any state: it throws when one of the dates still to come is invalid, and
  otherwise ends with the balance and the rows of the specification's recurrence, started
  at the balance \<open>b\<close> of the state.
\<close>

lemma schedule_loop_char:
  "schedule_loop tza M D s rate i b acc =
     (if list_all (date_valid tza s) [i..<loop_count D]
      then Inr (spec_balance b M (js_div rate (Fin 12)) (loop_count D - i),
                acc @ map (\<lambda>j. (spec_row tza s b M (js_div rate (Fin 12)) (j - i))
                                  \<lparr>date := date_text tza s j\<rparr>) [i..<loop_count D])
      else Inl RangeError)"
proof (induction "loop_count D - i" arbitrary: i b acc)
  case 0
  then have "\<not> counter_lt i D" by (simp add: counter_lt_loop_count)
  with 0 show ?case by (simp add: schedule_loop.simps)
next
  case (Suc m)
  then have lt: "i < loop_count D" and m: "m = loop_count D - Suc i" by simp_all
  let ?r = "js_div rate (Fin 12)"
  let ?b' = "js_sub b (js_sub M (js_mul b ?r))"
  let ?row = "\<lambda>b j k. (spec_row tza s b M ?r k)\<lparr>date := date_text tza s j\<rparr>"
  have upt: "[i..<loop_count D] = i # [Suc i..<loop_count D]"
    using lt by (simp add: upt_conv_Cons)
  have step: "period_step M rate b = (js_mul b ?r, js_sub M (js_mul b ?r), ?b')"
    by (simp add: period_step_def Let_def)
  show ?case
  proof (cases "row_date tza s i")
    case (Inl e)
    then have "Date_toISOString (Date_setMonth tza (Date_new s)
                 (map_option (\<lambda>m. m + int i) (Date_getMonth tza (Date_new s)))) = Inl RangeError"
      by (auto simp: row_date_def map_sum_def js_error_is_RangeError split: sum.splits)
    moreover have "\<not> date_valid tza s i" using Inl by (simp add: date_valid_def)
    ultimately show ?thesis
      using lt by (subst schedule_loop.simps) (simp add: counter_lt_loop_count upt Let_def step)
  next
    case (Inr str)
    then obtain iso where iso: "Date_toISOString (Date_setMonth tza (Date_new s)
                 (map_option (\<lambda>m. m + int i) (Date_getMonth tza (Date_new s)))) = Inr iso"
      and str: "str = before_T iso"
      by (auto simp: row_date_def map_sum_def split: sum.splits)
    have valid: "date_valid tza s i" using Inr by (simp add: date_valid_def)
    have row: "\<lparr>date = before_T iso, principalAmount = toFixed2 (js_sub M (js_mul b ?r)),
                 interest = toFixed2 (js_mul b ?r), balance = toFixed2 ?b'\<rparr>
               = ?row b i (i - i)"
      using Inr str by (simp add: spec_row_def spec_principal_def spec_interest_def date_text_def)
    have shift: "?row ?b' j (j - Suc i) = ?row b j (j - i)" if "Suc i \<le> j" for j
    proof -
      from that have "j - i = Suc (j - Suc i)" by simp
      then show ?thesis
        by (simp add: spec_row_def spec_principal_def spec_interest_def
              spec_balance_shift [symmetric] del: spec_balance.simps)
    qed
    have maps: "map (\<lambda>j. ?row ?b' j (j - Suc i)) [Suc i..<loop_count D]
              = map (\<lambda>j. ?row b j (j - i)) [Suc i..<loop_count D]"
      by (rule map_cong) (simp_all add: shift)
    have bal: "spec_balance ?b' M ?r (loop_count D - Suc i) = spec_balance b M ?r (loop_count D - i)"
      using lt by (simp add: spec_balance_shift Suc_diff_Suc del: spec_balance.simps)
    have "schedule_loop tza M D s rate i b acc
          = schedule_loop tza M D s rate (Suc i) ?b' (acc @ [?row b i (i - i)])"
      using lt iso row by (subst schedule_loop.simps) (simp add: counter_lt_loop_count Let_def step)
    also have "\<dots> = (if list_all (date_valid tza s) [Suc i..<loop_count D]
      then Inr (spec_balance ?b' M ?r (loop_count D - Suc i),
                (acc @ [?row b i (i - i)])
                  @ map (\<lambda>j. ?row ?b' j (j - Suc i)) [Suc i..<loop_count D])
      else Inl RangeError)"
      by (rule Suc.hyps(1) [OF m])
    finally show ?thesis
      using valid by (simp add: upt maps bal)
  qed
qed

lemma running_balance_spec:
  "running_balance M rate L k = spec_balance L M (js_div rate (Fin 12)) k"
  by (induction k) (simp_all add: period_step_def Let_def)


lemma spec_row_date [simp]:
  "(spec_row tza s L M r k)\<lparr>date := date_text tza s k\<rparr> = spec_row tza s L M r k"
  by (simp add: spec_row_def)

lemma schedule_loop_start:
  "schedule_loop tza M D s rate 0 L [] =
     (if dates_valid tza s (loop_count D)
      then Inr (running_balance M rate L (loop_count D),
                map (spec_row tza s L M (js_div rate (Fin 12))) [0..<loop_count D])
      else Inl RangeError)"
  by (simp add: schedule_loop_char dates_valid_def running_balance_spec)

lemma generateRepaymentScheduleArray_char:
  "generateRepaymentScheduleArray tza L M D s rate =
     (if dates_valid tza s (loop_count D)
      then Inr (map (spec_row tza s L M (js_div rate (Fin 12))) [0..<loop_count D])
      else Inl RangeError)"
  by (simp add: generateRepaymentScheduleArray_def schedule_loop_start)

lemma calculateLoanDetails_char:
  "calculateLoanDetails tza L rate D s =
     (if dates_valid tza s (loop_count D)
      then Inr \<lparr>monthlyEMI = monthly_payment L rate D,
                totalInterest = js_sub (js_mul (monthly_payment L rate D) (to_num D)) L,
                totalAmount = js_add (js_sub (js_mul (monthly_payment L rate D) (to_num D)) L) L,
                repaymentSchedule =
                  map (spec_row tza s L (monthly_payment L rate D) (js_div rate (Fin 12)))
                    [0..<loop_count D]\<rparr>
      else Inl RangeError)"
  by (simp add: calculateLoanDetails_def generateRepaymentScheduleArray_char Let_def)

lemma calculateLoan_char:
  "calculateLoan tza A R D s = calculateLoanDetails tza A (js_div R (Fin 100)) D s"
  by (simp add: calculateLoan_def Let_def)

section \<open>The payment and the balance in exact arithmetic\<close>









section \<open>An example schedule\<close>

text \<open>
  The dates of three rows from 2024-01-31 (time value 1706659200000) on a UTC host.
  February has no 31st day: the second row runs on into March.
\<close>

lemma row_dates_example:
  "row_date utc (Some 1706659200000) 0 = Inr ''2024-01-31''"
  "row_date utc (Some 1706659200000) (Suc 0) = Inr ''2024-03-02''"
  "row_date utc (Some 1706659200000) 2 = Inr ''2024-03-31''"
  by code_simp+

lemma upt_3: "[0..<3] = [0, Suc 0, 2]"
  by code_simp

lemma dates_valid_example: "dates_valid utc (Some 1706659200000) 3"
  by (simp add: dates_valid_def date_valid_def upt_3 row_dates_example)


section \<open>The monthly payment\<close>





text \<open>
  Claim C8. With a rate of zero and a term \<open>n > 0\<close> the monthly payment that the engine
  returns is NaN, which is not finite: the numerator and the divisor of the payment are
  both zero, and no case of the code sets a zero rate apart. The only error of the
  engine is the RangeError of an invalid date, whatever the rate.
\<close>

theorem zero_rate_payment:
  assumes "0 < n"
  shows "map_sum id (\<lambda>res. (monthlyEMI res, isFinite (monthlyEMI res)))
           (calculateLoan tza (Fin P) (Fin 0) (IntVal n) s)
           = (if dates_valid tza s (nat n) then Inr (NaN, False) else Inl RangeError)"
proof -
  have "monthly_payment (Fin P) (Fin 0) (IntVal n) = NaN"
    using assms by (simp add: monthly_payment_def signed_inf_def)
  then show ?thesis
    by (simp add: calculateLoan_char calculateLoanDetails_char)
qed

theorem zero_rate_payment_witness:
  "(0::int) < 3 \<and> dates_valid utc (Some 1706659200000) (nat 3) \<and>
   map_sum id (\<lambda>res. (monthlyEMI res, isFinite (monthlyEMI res)))
     (calculateLoan utc (Fin 1000) (Fin 0) (IntVal 3) (Some 1706659200000))
     = Inr (NaN, False)"
  using zero_rate_payment [of 3 utc 1000 "Some 1706659200000"] dates_valid_example
  by simp

text \<open>
  Claim C9. With a principal \<open>P > 0\<close>, a rate of \<open>a > 0\<close> percent and a term of zero months
  the engine returns, whatever the date, and the monthly payment it returns is
  \<open>Infinity\<close>: the divisor of the payment is zero and its numerator is positive.
\<close>

theorem zero_term_payment:
  assumes "0 < P" and "0 < a"
  shows "map_sum id (\<lambda>res. (monthlyEMI res, isFinite (monthlyEMI res)))
           (calculateLoan tza (Fin P) (Fin a) (IntVal 0) s) = Inr (PInf, False)"
proof -
  have "monthly_payment (Fin P) (Fin (a / 100)) (IntVal 0) = PInf"
    using assms by (simp add: monthly_payment_def signed_inf_def)
  then show ?thesis
    by (simp add: calculateLoan_char calculateLoanDetails_char dates_valid_def)
qed

theorem zero_term_payment_witness:
  "(0::real) < 1000 \<and> (0::real) < 12 \<and>
   map_sum id (\<lambda>res. (monthlyEMI res, isFinite (monthlyEMI res)))
     (calculateLoan utc (Fin 1000) (Fin 12) (IntVal 0) None) = Inr (PInf, False)"
  using zero_term_payment [of 1000 12 utc None]
  by simp

section \<open>The length of the schedule\<close>

text \<open>
  Claim C3. For a term of \<open>n \<ge> 0\<close> months, whatever the amount and the rate, the schedule
  that the engine returns has exactly \<open>n\<close> rows. The engine returns whenever every date
  of the schedule is valid, and throws RangeError otherwise.
\<close>

theorem schedule_length:
  assumes "0 \<le> n"
  shows "map_sum id (\<lambda>res. int (length (repaymentSchedule res)))
           (calculateLoan tza A R (IntVal n) s)
           = (if dates_valid tza s (nat n) then Inr n else Inl RangeError)"
  using assms by (simp add: calculateLoan_char calculateLoanDetails_char)

theorem schedule_length_witness:
  "(0::int) \<le> 3 \<and> dates_valid utc (Some 1706659200000) (nat 3) \<and>
   map_sum id (\<lambda>res. int (length (repaymentSchedule res)))
     (calculateLoan utc (Fin 1000) (Fin 12) (IntVal 3) (Some 1706659200000)) = Inr 3"
  using schedule_length [of 3 utc "Fin 1000" "Fin 12" "Some 1706659200000"] dates_valid_example
  by simp

section \<open>The totals\<close>

text \<open>
  Claim C4. For every input on which the engine returns, the total interest of the
  result is the monthly payment times the number of months less the amount, and the
  total amount is the total interest plus the amount, as values of JavaScript numbers
  (NaN included, as a value). The engine returns exactly when every date of the
  schedule is valid.
\<close>

theorem totals_identity:
  "case calculateLoan tza A R D s of
     Inl e \<Rightarrow> \<not> dates_valid tza s (loop_count D)
   | Inr res \<Rightarrow>
       dates_valid tza s (loop_count D) \<and>
       totalInterest res = js_sub (js_mul (monthlyEMI res) (to_num D)) A \<and>
       totalAmount res = js_add (totalInterest res) A"
  by (simp add: calculateLoan_char calculateLoanDetails_char)

theorem totals_identity_witness:
  "\<exists>res. calculateLoan utc (Fin 1000) (Fin 12) (IntVal 3) (Some 1706659200000) = Inr res \<and>
     totalInterest res = js_sub (js_mul (monthlyEMI res) (Fin 3)) (Fin 1000) \<and>
     totalAmount res = js_add (totalInterest res) (Fin 1000)"
  using totals_identity [where tza = utc and A = "Fin 1000" and R = "Fin 12" and D = "IntVal 3"
      and s = "Some 1706659200000"]
    dates_valid_example
  by (cases "calculateLoan utc (Fin 1000) (Fin 12) (IntVal 3) (Some 1706659200000)") simp_all

section \<open>The rows of the schedule\<close>

text \<open>A loan of 1000 at 12 percent over three months, from 2024-01-31.\<close>

lemma example_payment:
  "monthly_payment (Fin 1000) (Fin (12 / 100)) (IntVal 3) = Fin (10303010 / 30301)"
  by (simp add: monthly_payment_def eval_nat_numeral)

lemma example_loan:
  "calculateLoan utc (Fin 1000) (Fin 12) (IntVal 3) (Some 1706659200000) = Inr res
     \<Longrightarrow> monthlyEMI res = Fin (10303010 / 30301)"
  using dates_valid_example example_payment
  by (auto simp: calculateLoan_char calculateLoanDetails_char)

lemma example_balances:
  "spec_balance (Fin 1000) (Fin (10303010 / 30301)) (Fin (1 / 100)) (Suc 0) = Fin (20301000 / 30301)"
  "spec_balance (Fin 1000) (Fin (10303010 / 30301)) (Fin (1 / 100)) 2 = Fin (10201000 / 30301)"
  "spec_balance (Fin 1000) (Fin (10303010 / 30301)) (Fin (1 / 100)) 3 = Fin 0"
  unfolding numeral_2_eq_2 numeral_3_eq_3 by simp_all

text \<open>
  Claim C2. The schedule that the engine returns is the schedule of the specification:
  row \<open>k\<close>, for \<open>k\<close> from \<open>0\<close> to \<open>termMonths - 1\<close>, shows the principal portion, the
  interest portion and the new balance of period \<open>k\<close> rounded to two decimal places by
  \<open>toFixed(2)\<close>, where the running balance starts at the principal, the interest portion
  is the running balance times the monthly rate, the principal portion is the monthly
  payment less the interest portion, and the running balance goes down by the principal
  portion without being rounded. This holds for every amount, rate and term, so for the
  valid ones.
\<close>

theorem schedule_recurrence:
  "case calculateLoan tza A R D s of
     Inl e \<Rightarrow> \<not> dates_valid tza s (loop_count D)
   | Inr res \<Rightarrow>
       dates_valid tza s (loop_count D) \<and>
       repaymentSchedule res =
         map (spec_row tza s A (monthlyEMI res) (js_div (js_div R (Fin 100)) (Fin 12)))
           [0..<loop_count D]"
proof -
  let ?rate = "js_div R (Fin 100)"
  let ?emi = "monthly_payment A ?rate D"
  have "schedule_loop tza ?emi D s ?rate 0 A [] =
          (if dates_valid tza s (loop_count D)
           then Inr (running_balance ?emi ?rate A (loop_count D),
                     map (spec_row tza s A ?emi (js_div ?rate (Fin 12))) [0..<loop_count D])
           else Inl RangeError)"
    by (rule schedule_loop_start)
  then have "generateRepaymentScheduleArray tza A ?emi D s ?rate =
          (if dates_valid tza s (loop_count D)
           then Inr (map (spec_row tza s A ?emi (js_div ?rate (Fin 12))) [0..<loop_count D])
           else Inl RangeError)"
    by (simp add: generateRepaymentScheduleArray_def)
  then show ?thesis
    by (simp add: calculateLoan_def calculateLoanDetails_def Let_def)
qed

theorem schedule_recurrence_witness:
  "\<exists>res. calculateLoan utc (Fin 1000) (Fin 12) (IntVal 3) (Some 1706659200000) = Inr res \<and>
     repaymentSchedule res =
       [\<lparr>date = ''2024-01-31'', principalAmount = Text ''330.02'',
         interest = Text ''10.00'', balance = Text ''669.98''\<rparr>,
        \<lparr>date = ''2024-03-02'', principalAmount = Text ''333.32'',
         interest = Text ''6.70'', balance = Text ''336.66''\<rparr>,
        \<lparr>date = ''2024-03-31'', principalAmount = Text ''336.66'',
         interest = Text ''3.37'', balance = Text ''0.00''\<rparr>]"
proof (cases "calculateLoan utc (Fin 1000) (Fin 12) (IntVal 3) (Some 1706659200000)")
  case (Inl e)
  with schedule_recurrence [where tza = utc and A = "Fin 1000" and R = "Fin 12"
      and D = "IntVal 3" and s = "Some 1706659200000"] dates_valid_example
  show ?thesis by simp
next
  case (Inr res)
  with schedule_recurrence [where tza = utc and A = "Fin 1000" and R = "Fin 12"
      and D = "IntVal 3" and s = "Some 1706659200000"]
  have "repaymentSchedule res =
          map (spec_row utc (Some 1706659200000) (Fin 1000) (monthlyEMI res)
                 (js_div (js_div (Fin 12) (Fin 100)) (Fin 12))) [0..<3]"
    by simp
  then show ?thesis
    using Inr
    by (simp add: example_loan [OF Inr] upt_3 spec_row_def spec_principal_def spec_interest_def
          example_balances date_text_def row_dates_example hundredths_def pad_left_def
          decimal.simps)
qed

section \<open>The dates of the rows\<close>

text \<open>
  Claim C10. The date of row \<open>i\<close> of the schedule is \<open>row_date tza startDate i\<close>: the date
  that a new Date on \<open>startDate\<close>, moved on by \<open>i\<close> months, prints. It is a function of
  the host, of \<open>startDate\<close> and of \<open>i\<close> alone; the dates of the rows before it do not
  enter. For a valid start it is the day of the month of the start in the month of the
  start moved on by \<open>i\<close>, so a day that runs on into the next month in one row is not
  carried into the rows after it. In the example the second row runs on from February
  into March, and the third row is on the 31st again.
\<close>

theorem row_date_fresh:
  "(case calculateLoanDetails tza L rate D s of
      Inl e \<Rightarrow> \<not> dates_valid tza s (loop_count D)
    | Inr res \<Rightarrow>
        length (repaymentSchedule res) = loop_count D \<and>
        (\<forall>i<loop_count D. row_date tza s i = Inr (date (repaymentSchedule res ! i)))) \<and>
   row_date tza (Some tv) j =
     map_sum id before_T
       (Date_toISOString
          (TimeClip (UTC tza
             (MakeDate
                (MakeDay (YearFromTime (LocalTime tza tv))
                   (MonthFromTime (LocalTime tza tv) + int j)
                   (DateFromTime (LocalTime tza tv)))
                (TimeWithinDay (LocalTime tza tv))))))"
proof -
  have rows:
    "case calculateLoanDetails tza L rate D s of
       Inl e \<Rightarrow> \<not> dates_valid tza s (loop_count D)
     | Inr res \<Rightarrow>
         length (repaymentSchedule res) = loop_count D \<and>
         (\<forall>i<loop_count D. row_date tza s i = Inr (date (repaymentSchedule res ! i)))"
  proof (cases "dates_valid tza s (loop_count D)")
    case False
    then show ?thesis by (simp add: calculateLoanDetails_char)
  next
    case True
    have "row_date tza s i = Inr (date_text tza s i)" if "i < loop_count D" for i
    proof -
      from True that have "date_valid tza s i"
        by (simp add: dates_valid_def list_all_iff)
      then show ?thesis
        by (simp add: date_valid_def date_text_def split: sum.splits)
    qed
    with True show ?thesis
      by (simp add: calculateLoanDetails_char spec_row_def)
  qed
  show ?thesis by (rule conjI [OF rows row_date_formula])
qed

theorem row_date_fresh_witness:
  "\<exists>res. calculateLoanDetails utc (Fin 1000) (Fin (12 / 100)) (IntVal 3) (Some 1706659200000)
            = Inr res \<and>
     map date (repaymentSchedule res) = [''2024-01-31'', ''2024-03-02'', ''2024-03-31'']"
proof (cases "calculateLoanDetails utc (Fin 1000) (Fin (12 / 100)) (IntVal 3) (Some 1706659200000)")
  case (Inl e)
  with row_date_fresh [where tza = utc and L = "Fin 1000" and rate = "Fin (12 / 100)"
      and D = "IntVal 3" and s = "Some 1706659200000" and tv = 0 and j = 0, THEN conjunct1]
    dates_valid_example
  show ?thesis by simp
next
  case (Inr res)
  with row_date_fresh [where tza = utc and L = "Fin 1000" and rate = "Fin (12 / 100)"
      and D = "IntVal 3" and s = "Some 1706659200000" and tv = 0 and j = 0, THEN conjunct1]
  have len: "length (repaymentSchedule res) = 3"
    and dates: "\<forall>i<3. row_date utc (Some 1706659200000) i = Inr (date (repaymentSchedule res ! i))"
    by simp_all
  from dates [rule_format, of 0] dates [rule_format, of "Suc 0"] dates [rule_format, of 2]
  have "date (repaymentSchedule res ! 0) = ''2024-01-31''"
    and "date (repaymentSchedule res ! Suc 0) = ''2024-03-02''"
    and "date (repaymentSchedule res ! 2) = ''2024-03-31''"
    using row_dates_example by simp_all
  with len have "map date (repaymentSchedule res) = [''2024-01-31'', ''2024-03-02'', ''2024-03-31'']"
    by (intro nth_equalityI) (auto simp: less_Suc_eq eval_nat_numeral)
  with Inr show ?thesis by simp
qed

section \<open>The balance\<close>













section \<open>When the engine throws\<close>

text \<open>
  \<open>toISOString\<close> throws RangeError on an invalid Date, and the engine with it: for every
  term of at least one month when the start is not a date, and from the row whose date
  leaves the range of time values when it is. The last time value is 8640000000000000,
  in September of the year 275760; its month moved on by one is out of the range.
\<close>

lemma invalid_start_throws:
  assumes "0 < n"
  shows "calculateLoan tza A R (IntVal n) None = Inl RangeError"
proof -
  from assms have "[0..<nat n] = 0 # [Suc 0..<nat n]"
    by (simp add: upt_conv_Cons)
  then have "\<not> dates_valid tza None (nat n)"
    by (simp add: dates_valid_def date_valid_def row_date_invalid)
  then show ?thesis
    by (simp add: calculateLoan_char calculateLoanDetails_char)
qed

lemma last_day_months:
  "Date_getMonth utc (Some 8640000000000000) = Some 8"
  "Date_setMonth utc (Some 8640000000000000) (Some 8) = Some 8640000000000000"
  "Date_setMonth utc (Some 8640000000000000) (Some 9) = None"
  by code_simp+

lemma last_day_dates:
  "date_valid utc (Some 8640000000000000) 0"
  "\<not> date_valid utc (Some 8640000000000000) (Suc 0)"
  by (simp_all add: date_valid_def row_date_def Date_new_def last_day_months
        Date_toISOString_def Let_def)

lemma last_day_throws:
  "calculateLoan utc A R (IntVal 2) (Some 8640000000000000) = Inl RangeError"
proof -
  have "[0..<nat 2] = [0, Suc 0]" by (simp add: upt_rec)
  then have "\<not> dates_valid utc (Some 8640000000000000) (nat 2)"
    by (simp add: dates_valid_def last_day_dates)
  then show ?thesis
    by (simp add: calculateLoan_char calculateLoanDetails_char)
qed

end
